theory Spec2Isabelle
  imports Complex_Main
begin

section \<open>Data model of \<open>structure_utils.py\<close>\<close>

text \<open>
  A coordinate array is the value of \<open>np.array(coords)\<close> for a Python list \<open>coords\<close> of
  alpha-carbon positions, which is how both extraction routines of the source build it.
  It is modelled as the list of its points, over the reals. For a non-empty list numpy
  gives an array of shape \<open>(n, 3)\<close>; for the empty list \<open>np.array([])\<close> has shape \<open>(0,)\<close>,
  a one-dimensional array. \<open>len\<close> is \<open>length\<close>, \<open>a[:k]\<close> is \<open>take k a\<close> and \<open>a[k:]\<close> is
  \<open>drop k a\<close>.
\<close>

type_synonym point = "real \<times> real \<times> real"
type_synonym coords = "point list"
type_synonym mat3 = "point \<times> point \<times> point"

text \<open>
  The exceptions of the source as values. The source raises Python's \<open>ValueError\<close> both
  for a missing chain and for arrays of unequal length; the two are kept apart under the
  names the specification gives them. The other three are raised inside numpy on the
  one-dimensional empty array: \<open>np.concatenate\<close> on arrays of different dimension,
  \<open>np.sum(..., axis=1)\<close> on a one-dimensional array, and \<open>np.linalg.svd\<close> on the scalar
  that \<open>@\<close> yields for two one-dimensional arrays.
\<close>

datatype error =
    ChainNotFoundError
  | LengthMismatchError
  | ConcatenateError
  | AxisError
  | LinAlgError

text \<open>
  A Biopython residue: its name and its atoms by atom name. A chain is its residues in
  file order, a model its chains by chain id, a structure its models in order.
\<close>

record residue =
  resname :: string
  atoms :: "(string \<times> point) list"

type_synonym chain = "residue list"
type_synonym model = "(string \<times> chain) list"
type_synonym pdb_structure = "model list"

record ComplexInfo =
  target_chain_id :: string
  binder_chain_id :: string
  target_sequence :: string
  binder_sequence :: string
  target_coords :: coords
  binder_coords :: coords
  complex_coords :: coords
  pdb_path :: string

record RmsdMetrics =
  complex_rmsd :: real
  complex_rmsd_aligned :: real
  target_rmsd :: real
  target_rmsd_aligned :: real
  binder_rmsd :: real
  binder_rmsd_aligned :: real

section \<open>Coordinate extraction\<close>

text \<open>
  The loop of \<open>_extract_chain_info\<close>. \<open>is_aa\<close> is Biopython's \<open>PDB.is_aa\<close> and
  \<open>three_to_one\<close> its \<open>PDB.Polypeptide.three_to_one\<close>, both functions of the residue
  name; \<open>None\<close> is the \<open>KeyError\<close> that the loop catches with \<open>continue\<close>. The letter is
  appended to the sequence before the residue is asked for its \<open>CA\<close> atom.
\<close>

fun extract_loop ::
  "(string \<Rightarrow> bool) \<Rightarrow> (string \<Rightarrow> char option) \<Rightarrow> chain \<Rightarrow> string \<Rightarrow> coords \<Rightarrow> string \<times> coords"
where
  "extract_loop is_aa three_to_one [] sequence cs = (sequence, cs)"
| "extract_loop is_aa three_to_one (r # rs) sequence cs =
     (if is_aa (resname r) then
        (case three_to_one (resname r) of
           None \<Rightarrow> extract_loop is_aa three_to_one rs sequence cs
         | Some c \<Rightarrow>
             (case map_of (atoms r) ''CA'' of
                Some p \<Rightarrow> extract_loop is_aa three_to_one rs (sequence @ [c]) (cs @ [p])
              | None \<Rightarrow> extract_loop is_aa three_to_one rs (sequence @ [c]) cs))
      else extract_loop is_aa three_to_one rs sequence cs)"

text \<open>
  \<open>structure[0][chain_id]\<close> raises \<open>KeyError\<close> when the structure has no first model or
  the model has no such chain; the source turns it into its chain-not-found error.
\<close>

definition extract_chain_info ::
  "(string \<Rightarrow> bool) \<Rightarrow> (string \<Rightarrow> char option) \<Rightarrow> pdb_structure \<Rightarrow> string \<Rightarrow> error + string \<times> coords"
where
  "extract_chain_info is_aa three_to_one s chain_id =
     (case s of
        [] \<Rightarrow> Inl ChainNotFoundError
      | m # _ \<Rightarrow>
          (case map_of m chain_id of
             None \<Rightarrow> Inl ChainNotFoundError
           | Some ch \<Rightarrow> Inr (extract_loop is_aa three_to_one ch [] [])))"

text \<open>
  \<open>np.concatenate\<close>: it raises on an empty list of arrays and on arrays of different
  dimension, that is when the empty one-dimensional array meets a non-empty one.
\<close>

definition np_concatenate :: "coords list \<Rightarrow> error + coords" where
  "np_concatenate arrs =
     (if arrs = [] then Inl ConcatenateError
      else if list_all (\<lambda>a. a = []) arrs \<or> list_all (\<lambda>a. a \<noteq> []) arrs then Inr (concat arrs)
      else Inl ConcatenateError)"

fun collect_coords ::
  "(string \<Rightarrow> bool) \<Rightarrow> (string \<Rightarrow> char option) \<Rightarrow> pdb_structure \<Rightarrow> string list \<Rightarrow> error + coords list"
where
  "collect_coords is_aa three_to_one s [] = Inr []"
| "collect_coords is_aa three_to_one s (chain_id # chain_ids) =
     (case extract_chain_info is_aa three_to_one s chain_id of
        Inl e \<Rightarrow> Inl e
      | Inr (_, cs) \<Rightarrow>
          (case collect_coords is_aa three_to_one s chain_ids of
             Inl e \<Rightarrow> Inl e
           | Inr all_coords \<Rightarrow> Inr (cs # all_coords)))"

definition get_complex_coords ::
  "(string \<Rightarrow> bool) \<Rightarrow> (string \<Rightarrow> char option) \<Rightarrow> pdb_structure \<Rightarrow> string list \<Rightarrow> error + coords"
where
  "get_complex_coords is_aa three_to_one s chain_ids =
     (case collect_coords is_aa three_to_one s chain_ids of
        Inl e \<Rightarrow> Inl e
      | Inr all_coords \<Rightarrow> np_concatenate all_coords)"

text \<open>
  \<open>parse_complex\<close>, on the structure that the PDB parser has read from \<open>pdb_path\<close>.
\<close>

definition parse_complex ::
  "(string \<Rightarrow> bool) \<Rightarrow> (string \<Rightarrow> char option) \<Rightarrow> pdb_structure \<Rightarrow> string \<Rightarrow> string \<Rightarrow> string
     \<Rightarrow> error + ComplexInfo"
where
  "parse_complex is_aa three_to_one s path target_chain binder_chain =
     (case extract_chain_info is_aa three_to_one s target_chain of
        Inl e \<Rightarrow> Inl e
      | Inr (target_seq, t_coords) \<Rightarrow>
          (case extract_chain_info is_aa three_to_one s binder_chain of
             Inl e \<Rightarrow> Inl e
           | Inr (binder_seq, b_coords) \<Rightarrow>
               (case get_complex_coords is_aa three_to_one s [target_chain, binder_chain] of
                  Inl e \<Rightarrow> Inl e
                | Inr c_coords \<Rightarrow>
                    Inr \<lparr> target_chain_id = target_chain,
                          binder_chain_id = binder_chain,
                          target_sequence = target_seq,
                          binder_sequence = binder_seq,
                          target_coords = t_coords,
                          binder_coords = b_coords,
                          complex_coords = c_coords,
                          pdb_path = path \<rparr>)))"

text \<open>
  \<open>_extract_coords_from_cif\<close>, on the structure that the mmCIF parser has read: the
  \<open>CA\<close> position of every residue that has one, over all models and chains.
\<close>

definition extract_coords_from_cif :: "pdb_structure \<Rightarrow> coords" where
  "extract_coords_from_cif s =
     concat (map (\<lambda>m. concat (map (\<lambda>(_, ch).
       concat (map (\<lambda>r. case map_of (atoms r) ''CA'' of Some p \<Rightarrow> [p] | None \<Rightarrow> []) ch)) m)) s)"

section \<open>Vectors and 3 by 3 matrices\<close>

text \<open>
  The numpy operations that \<open>kabsch_align\<close> uses, on points and on 3 by 3 matrices given
  by their rows.
\<close>

fun vadd :: "point \<Rightarrow> point \<Rightarrow> point" where
  "vadd (a, b, c) (x, y, z) = (a + x, b + y, c + z)"

fun vsub :: "point \<Rightarrow> point \<Rightarrow> point" where
  "vsub (a, b, c) (x, y, z) = (a - x, b - y, c - z)"

fun vscale :: "real \<Rightarrow> point \<Rightarrow> point" where
  "vscale k (x, y, z) = (k * x, k * y, k * z)"

fun dot :: "point \<Rightarrow> point \<Rightarrow> real" where
  "dot (a, b, c) (x, y, z) = a * x + b * y + c * z"

text \<open>\<open>np.sum((p - q)**2)\<close> for one pair of points.\<close>

definition sqdist :: "point \<Rightarrow> point \<Rightarrow> real" where
  "sqdist p q = dot (vsub p q) (vsub p q)"

fun mT :: "mat3 \<Rightarrow> mat3" where
  "mT ((a, b, c), (d, e, f), (g, h, i)) = ((a, d, g), (b, e, h), (c, f, i))"

fun mv :: "mat3 \<Rightarrow> point \<Rightarrow> point" where
  "mv (r1, r2, r3) v = (dot r1 v, dot r2 v, dot r3 v)"

fun mmul :: "mat3 \<Rightarrow> mat3 \<Rightarrow> mat3" where
  "mmul (r1, r2, r3) B =
     (case mT B of (c1, c2, c3) \<Rightarrow>
        ((dot r1 c1, dot r1 c2, dot r1 c3),
         (dot r2 c1, dot r2 c2, dot r2 c3),
         (dot r3 c1, dot r3 c2, dot r3 c3)))"

fun madd :: "mat3 \<Rightarrow> mat3 \<Rightarrow> mat3" where
  "madd (r1, r2, r3) (s1, s2, s3) = (vadd r1 s1, vadd r2 s2, vadd r3 s3)"

fun det3 :: "mat3 \<Rightarrow> real" where
  "det3 ((a, b, c), (d, e, f), (g, h, i)) =
     a * (e * i - f * h) - b * (d * i - f * g) + c * (d * h - e * g)"

definition mzero :: mat3 where
  "mzero = ((0, 0, 0), (0, 0, 0), (0, 0, 0))"

definition mid :: mat3 where
  "mid = ((1, 0, 0), (0, 1, 0), (0, 0, 1))"

text \<open>The outer product of two points, a summand of \<open>a.T @ b\<close>.\<close>

fun outer :: "point \<Rightarrow> point \<Rightarrow> mat3" where
  "outer (a, b, c) y = (vscale a y, vscale b y, vscale c y)"

text \<open>\<open>Vt[-1, :] *= -1\<close>: the last row of the matrix changes sign.\<close>

fun neg_last_row :: "mat3 \<Rightarrow> mat3" where
  "neg_last_row (r1, r2, r3) = (r1, r2, vscale (- 1) r3)"

text \<open>\<open>np.mean\<close> of a list of numbers and \<open>np.mean(a, axis=0)\<close> of a non-empty array.\<close>

definition mean :: "real list \<Rightarrow> real" where
  "mean xs = sum_list xs / real (length xs)"

definition centroid :: "coords \<Rightarrow> point" where
  "centroid a =
     (mean (map fst a), mean (map (\<lambda>p. fst (snd p)) a), mean (map (\<lambda>p. snd (snd p)) a))"

text \<open>\<open>a.T @ b\<close> for two arrays of shape \<open>(n, 3)\<close>: the sum of the outer products of the rows.\<close>

definition cross_cov :: "coords \<Rightarrow> coords \<Rightarrow> mat3" where
  "cross_cov a b = foldr (\<lambda>(x, y) M. madd (outer x y) M) (zip a b) mzero"

text \<open>\<open>np.sqrt(np.mean(np.sum((a - b)**2, axis=1)))\<close> for two arrays of shape \<open>(n, 3)\<close>.\<close>

definition rms :: "coords \<Rightarrow> coords \<Rightarrow> real" where
  "rms a b = sqrt (mean (map (\<lambda>(p, q). sqdist p q) (zip a b)))"

text \<open>The trace of a matrix, the sum of a list of points, and the sum under the root of \<open>rms\<close>.\<close>

fun tr3 :: "mat3 \<Rightarrow> real" where
  "tr3 ((a, b, c), (d, e, f), (g, h, i)) = a + e + i"

definition vsum :: "coords \<Rightarrow> point" where
  "vsum a = foldr vadd a (0, 0, 0)"

definition sum_sqdist :: "coords \<Rightarrow> coords \<Rightarrow> real" where
  "sum_sqdist a b = sum_list (map (\<lambda>(p, q). sqdist p q) (zip a b))"

section \<open>Alignment and scoring\<close>

text \<open>
  \<open>calculate_rmsd\<close> (the specification's \<open>rmsd\<close>). On two empty arrays, which are
  one-dimensional, \<open>np.sum(..., axis=1)\<close> raises.
\<close>

definition calculate_rmsd :: "coords \<Rightarrow> coords \<Rightarrow> error + real" where
  "calculate_rmsd coords1 coords2 =
     (if length coords1 \<noteq> length coords2 then Inl LengthMismatchError
      else if coords1 = [] then Inl AxisError
      else Inr (rms coords1 coords2))"

text \<open>
  \<open>np.linalg.svd\<close> is a parameter of the model: a function from the 3 by 3 matrix \<open>H\<close> to
  the triple \<open>(U, S, Vt)\<close>. \<open>exact_svd\<close> says that the triple is a singular value
  decomposition in exact arithmetic: \<open>U\<close> and \<open>Vt\<close> are orthogonal, the singular values
  are non-negative and in descending order, and \<open>H = U diag(S) Vt\<close>. The factors that
  numpy computes in floating point meet this up to rounding only; \<open>rounded_svd\<close> below is
  such a triple.
\<close>

type_synonym svd_fn = "mat3 \<Rightarrow> mat3 \<times> point \<times> mat3"

definition orthogonal :: "mat3 \<Rightarrow> bool" where
  "orthogonal Q = (mmul (mT Q) Q = mid \<and> mmul Q (mT Q) = mid)"

fun diag :: "point \<Rightarrow> mat3" where
  "diag (s1, s2, s3) = ((s1, 0, 0), (0, s2, 0), (0, 0, s3))"

fun descending :: "point \<Rightarrow> bool" where
  "descending (s1, s2, s3) = (s1 \<ge> s2 \<and> s2 \<ge> s3 \<and> s3 \<ge> 0)"

definition exact_svd :: "svd_fn \<Rightarrow> mat3 \<Rightarrow> bool" where
  "exact_svd svd H =
     (case svd H of (U, S, Vt) \<Rightarrow>
        orthogonal U \<and> orthogonal Vt \<and> descending S \<and> mmul U (mmul (diag S) Vt) = H)"

text \<open>
  The rotation that \<open>kabsch_align\<close> applies, lines 161 to 180 of the source: both arrays
  are centred, \<open>H\<close> is factored, \<open>R = Vt.T @ U.T\<close>, and when \<open>det(R) < 0\<close> the last row of
  \<open>Vt\<close> changes sign and \<open>R\<close> is computed again.
\<close>

definition centered :: "coords \<Rightarrow> coords" where
  "centered a = map (\<lambda>p. vsub p (centroid a)) a"

definition kabsch_rotation :: "svd_fn \<Rightarrow> coords \<Rightarrow> coords \<Rightarrow> mat3" where
  "kabsch_rotation svd coords1 coords2 =
     (let H = cross_cov (centered coords1) (centered coords2)
      in case svd H of (U, S, Vt) \<Rightarrow>
           (let R = mmul (mT Vt) (mT U)
            in if det3 R < 0 then mmul (mT (neg_last_row Vt)) (mT U) else R))"

text \<open>
  \<open>kabsch_align\<close>. On two empty arrays \<open>a.T @ b\<close> is a scalar and \<open>np.linalg.svd\<close>
  raises. \<open>coords1_centered @ R.T\<close> applies \<open>R\<close> to every centred point.
\<close>

definition kabsch_align :: "svd_fn \<Rightarrow> coords \<Rightarrow> coords \<Rightarrow> error + coords \<times> real" where
  "kabsch_align svd coords1 coords2 =
     (if length coords1 \<noteq> length coords2 then Inl LengthMismatchError
      else if coords1 = [] then Inl LinAlgError
      else
        (let R = kabsch_rotation svd coords1 coords2;
             coords1_aligned = map (\<lambda>x. vadd (mv R x) (centroid coords2)) (centered coords1)
         in Inr (coords1_aligned, rms coords1_aligned coords2)))"

text \<open>
  The pair of calls that \<open>calculate_complex_rmsd\<close> makes for each scope, in the order
  of the source: \<open>kabsch_align\<close> first, \<open>calculate_rmsd\<close> second. The result is the
  unaligned value and the aligned one.
\<close>

definition scope_rmsd :: "svd_fn \<Rightarrow> coords \<Rightarrow> coords \<Rightarrow> error + real \<times> real" where
  "scope_rmsd svd a b =
     (case kabsch_align svd a b of
        Inl e \<Rightarrow> Inl e
      | Inr (_, rmsd_aligned) \<Rightarrow>
          (case calculate_rmsd a b of
             Inl e \<Rightarrow> Inl e
           | Inr rmsd_unaligned \<Rightarrow> Inr (rmsd_unaligned, rmsd_aligned)))"

text \<open>
  \<open>score_complex\<close> is the body of \<open>calculate_complex_rmsd\<close> after its first line, on the
  predicted coordinate array.
\<close>

definition score_complex :: "svd_fn \<Rightarrow> coords \<Rightarrow> ComplexInfo \<Rightarrow> error + RmsdMetrics" where
  "score_complex svd pred_coords ref_complex =
     (let n_target = length (target_coords ref_complex);
          n_binder = length (binder_coords ref_complex)
      in
        if length pred_coords \<noteq> n_target + n_binder then
          (let min_complex_len = min (length pred_coords) (length (complex_coords ref_complex))
           in
             if min_complex_len < 3 then
               Inr \<lparr> complex_rmsd = - 1, complex_rmsd_aligned = - 1,
                     target_rmsd = - 1, target_rmsd_aligned = - 1,
                     binder_rmsd = - 1, binder_rmsd_aligned = - 1 \<rparr>
             else
               (case scope_rmsd svd (take min_complex_len pred_coords)
                       (take min_complex_len (complex_coords ref_complex)) of
                  Inl e \<Rightarrow> Inl e
                | Inr (complex_rmsd_unaligned, complex_rmsd_al) \<Rightarrow>
                    Inr \<lparr> complex_rmsd = complex_rmsd_unaligned,
                          complex_rmsd_aligned = complex_rmsd_al,
                          target_rmsd = - 1, target_rmsd_aligned = - 1,
                          binder_rmsd = - 1, binder_rmsd_aligned = - 1 \<rparr>))
        else
          (case scope_rmsd svd pred_coords (complex_coords ref_complex) of
             Inl e \<Rightarrow> Inl e
           | Inr (complex_rmsd_unaligned, complex_rmsd_al) \<Rightarrow>
               (case (let pred_target = take n_target pred_coords
                      in if length pred_target \<ge> 3
                         then scope_rmsd svd pred_target (target_coords ref_complex)
                         else Inr (- 1, - 1)) of
                  Inl e \<Rightarrow> Inl e
                | Inr (target_rmsd_unaligned, target_rmsd_al) \<Rightarrow>
                    (case (let pred_binder = drop n_target pred_coords
                           in if length pred_binder \<ge> 3
                              then scope_rmsd svd pred_binder (binder_coords ref_complex)
                              else Inr (- 1, - 1)) of
                       Inl e \<Rightarrow> Inl e
                     | Inr (binder_rmsd_unaligned, binder_rmsd_al) \<Rightarrow>
                         Inr \<lparr> complex_rmsd = complex_rmsd_unaligned,
                               complex_rmsd_aligned = complex_rmsd_al,
                               target_rmsd = target_rmsd_unaligned,
                               target_rmsd_aligned = target_rmsd_al,
                               binder_rmsd = binder_rmsd_unaligned,
                               binder_rmsd_aligned = binder_rmsd_al \<rparr>))))"

definition calculate_complex_rmsd ::
  "svd_fn \<Rightarrow> pdb_structure \<Rightarrow> ComplexInfo \<Rightarrow> error + RmsdMetrics"
where
  "calculate_complex_rmsd svd pred_structure ref_complex =
     score_complex svd (extract_coords_from_cif pred_structure) ref_complex"

section \<open>Notions used in the statements\<close>

text \<open>The chain id is present in the first model of the structure.\<close>

definition has_chain :: "pdb_structure \<Rightarrow> string \<Rightarrow> bool" where
  "has_chain s chain_id = (case s of [] \<Rightarrow> False | m # _ \<Rightarrow> map_of m chain_id \<noteq> None)"

text \<open>The two tests of the extraction loop on a residue.\<close>

definition has_code :: "(string \<Rightarrow> bool) \<Rightarrow> (string \<Rightarrow> char option) \<Rightarrow> residue \<Rightarrow> bool" where
  "has_code is_aa three_to_one r = (is_aa (resname r) \<and> three_to_one (resname r) \<noteq> None)"

definition has_ca :: "residue \<Rightarrow> bool" where
  "has_ca r = (map_of (atoms r) ''CA'' \<noteq> None)"

text \<open>The record of six sentinels.\<close>

definition sentinel_metrics :: RmsdMetrics where
  "sentinel_metrics =
     \<lparr> complex_rmsd = - 1, complex_rmsd_aligned = - 1,
       target_rmsd = - 1, target_rmsd_aligned = - 1,
       binder_rmsd = - 1, binder_rmsd_aligned = - 1 \<rparr>"

subsection \<open>Concrete inputs\<close>

text \<open>
  A small instance of the Biopython tables: \<open>MSE\<close> (selenomethionine) is an amino acid
  for \<open>is_aa\<close> and unknown to \<open>three_to_one\<close>.
\<close>

definition demo_is_aa :: "string \<Rightarrow> bool" where
  "demo_is_aa n = (n \<in> set [''ALA'', ''GLY'', ''MSE''])"

definition demo_three_to_one :: "string \<Rightarrow> char option" where
  "demo_three_to_one = map_of [(''ALA'', CHR ''A''), (''GLY'', CHR ''G'')]"

text \<open>Two chains whose only residue is an alanine without alpha-carbon.\<close>

definition no_ca_structure :: pdb_structure where
  "no_ca_structure =
     [[(''A'', [\<lparr> resname = ''ALA'', atoms = [(''N'', (0, 0, 0))] \<rparr>]),
       (''B'', [\<lparr> resname = ''ALA'', atoms = [(''N'', (3, 0, 0))] \<rparr>])]]"

text \<open>A structure of two chains, \<open>A\<close> of two residues and \<open>B\<close> of one.\<close>

definition demo_structure :: pdb_structure where
  "demo_structure =
     [[(''A'', [\<lparr> resname = ''ALA'', atoms = [(''N'', (0, 0, 1)), (''CA'', (0, 0, 0))] \<rparr>,
                \<lparr> resname = ''HOH'', atoms = [(''O'', (5, 5, 5))] \<rparr>,
                \<lparr> resname = ''GLY'', atoms = [(''CA'', (1, 0, 0))] \<rparr>]),
       (''B'', [\<lparr> resname = ''GLY'', atoms = [(''CA'', (0, 1, 0))] \<rparr>])]]"

text \<open>
  A singular value decomposition of the diagonal matrices whose entries descend in
  absolute value and of which only the last may be negative.
\<close>

definition diag_svd :: svd_fn where
  "diag_svd H =
     (case H of ((a, _, _), (_, e, _), (_, _, i)) \<Rightarrow>
        (mid, (a, e, \<bar>i\<bar>), ((1, 0, 0), (0, 1, 0), (0, 0, if i < 0 then - 1 else 1))))"

text \<open>Six points on the axes, and their mirror image in the plane \<open>z = 0\<close>.\<close>

definition axes6 :: coords where
  "axes6 = [(2, 0, 0), (- 2, 0, 0), (0, 1, 0), (0, - 1, 0), (0, 0, 1), (0, 0, - 1)]"

definition axes6_mirror :: coords where
  "axes6_mirror = [(2, 0, 0), (- 2, 0, 0), (0, 1, 0), (0, - 1, 0), (0, 0, - 1), (0, 0, 1)]"

text \<open>The six points moved by one unit along the \<open>z\<close> axis.\<close>

definition axes6_lifted :: coords where
  "axes6_lifted = [(2, 0, 1), (- 2, 0, 1), (0, 1, 1), (0, - 1, 1), (0, 0, 2), (0, 0, 0)]"

text \<open>
  Three points that are not collinear, and factors for the covariance matrix of the
  centred triangle with itself as a computation in single precision delivers them: the
  exact factors have the entries \<open>1 / sqrt 2\<close>, which is no floating-point number, and
  \<open>c32\<close> is the single-precision number nearest to it.
\<close>

definition triangle :: coords where
  "triangle = [(0, 0, 0), (1, 0, 0), (0, 1, 0)]"

definition c32 :: real where
  "c32 = 11863283 / 16777216"

definition rounded_svd :: svd_fn where
  "rounded_svd H =
     (((c32, c32, 0), (- c32, c32, 0), (0, 0, 1)),
      (1, 1 / 3, 0),
      ((c32, - c32, 0), (c32, c32, 0), (0, 0, 1)))"

text \<open>A reference complex of one target point and one binder point.\<close>

definition tiny_complex :: ComplexInfo where
  "tiny_complex =
     \<lparr> target_chain_id = ''A'', binder_chain_id = ''B'',
       target_sequence = ''A'', binder_sequence = ''G'',
       target_coords = [(0, 0, 0)], binder_coords = [(1, 0, 0)],
       complex_coords = [(0, 0, 0), (1, 0, 0)], pdb_path = ''ref.pdb'' \<rparr>"

text \<open>
  The reference complex that \<open>parse_complex\<close> builds when neither chain has a residue
  with an alpha-carbon.
\<close>

definition empty_complex :: ComplexInfo where
  "empty_complex =
     \<lparr> target_chain_id = ''A'', binder_chain_id = ''B'',
       target_sequence = ''A'', binder_sequence = ''A'',
       target_coords = [], binder_coords = [],
       complex_coords = [], pdb_path = ''ref.pdb'' \<rparr>"

text \<open>A reference complex of three target points and one binder point.\<close>

definition small_complex :: ComplexInfo where
  "small_complex =
     \<lparr> target_chain_id = ''A'', binder_chain_id = ''B'',
       target_sequence = ''AAA'', binder_sequence = ''G'',
       target_coords = [(1, 0, 0), (- 1, 0, 0), (0, 0, 0)], binder_coords = [(0, 0, 0)],
       complex_coords = [(1, 0, 0), (- 1, 0, 0), (0, 0, 0), (0, 0, 0)],
       pdb_path = ''ref.pdb'' \<rparr>"

section \<open>Coordinate extraction: what a residue contributes\<close>

lemma extract_loop_eq:
  "extract_loop is_aa t1 ch sq cs =
     (sq @ map (\<lambda>r. the (t1 (resname r))) (filter (has_code is_aa t1) ch),
      cs @ map (\<lambda>r. the (map_of (atoms r) ''CA''))
             (filter (\<lambda>r. has_code is_aa t1 r \<and> has_ca r) ch))"
  by (induction ch arbitrary: sq cs) (auto simp: has_code_def has_ca_def split: option.splits)

lemma length_filter_conj_le:
  "length (filter (\<lambda>r. P r \<and> Q r) xs) \<le> length (filter P xs)"
  by (induction xs) auto

lemma length_filter_conj_eq:
  "(length (filter (\<lambda>r. P r \<and> Q r) xs) = length (filter P xs)) = (\<forall>r \<in> set xs. P r \<longrightarrow> Q r)"
proof (induction xs)
  case Nil
  then show ?case by simp
next
  case (Cons x xs)
  show ?case using Cons length_filter_conj_le [of P Q xs] by auto
qed

text \<open>
  Claim C1, as the code has it. When extraction returns, the sequence holds one letter
  for every residue of the chain that is an amino acid with a resolvable one-letter
  code, in file order, and the coordinates hold one point for every such residue that
  also has an alpha-carbon. So the coordinates are never longer than the sequence, and
  the two have the same length exactly when every residue with a resolvable code has an
  alpha-carbon.
\<close>

theorem extract_chain_info_entries:
  assumes "extract_chain_info is_aa t1 s chain_id = Inr (sq, cs)"
  shows "\<exists>m rest ch. s = m # rest \<and> map_of m chain_id = Some ch \<and>
           sq = map (\<lambda>r. the (t1 (resname r))) (filter (has_code is_aa t1) ch) \<and>
           cs = map (\<lambda>r. the (map_of (atoms r) ''CA''))
                  (filter (\<lambda>r. has_code is_aa t1 r \<and> has_ca r) ch) \<and>
           length cs \<le> length sq \<and>
           ((length cs = length sq) = (\<forall>r \<in> set ch. has_code is_aa t1 r \<longrightarrow> has_ca r))"
  using assms
  by (auto simp: extract_chain_info_def extract_loop_eq length_filter_conj_le
        length_filter_conj_eq split: list.splits option.splits)

theorem extract_chain_info_entries_witness:
  "extract_chain_info demo_is_aa demo_three_to_one demo_structure ''A''
     = Inr (''AG'', [(0, 0, 0), (1, 0, 0)]) \<and>
   (\<exists>m rest ch. demo_structure = m # rest \<and> map_of m ''A'' = Some ch \<and>
      ''AG'' = map (\<lambda>r. the (demo_three_to_one (resname r)))
                 (filter (has_code demo_is_aa demo_three_to_one) ch) \<and>
      [(0, 0, 0), (1, 0, 0)] = map (\<lambda>r. the (map_of (atoms r) ''CA''))
                 (filter (\<lambda>r. has_code demo_is_aa demo_three_to_one r \<and> has_ca r) ch) \<and>
      length [(0, 0, 0), (1, 0, 0) :: point] \<le> length ''AG'' \<and>
      ((length [(0, 0, 0), (1, 0, 0) :: point] = length ''AG'') =
         (\<forall>r \<in> set ch. has_code demo_is_aa demo_three_to_one r \<longrightarrow> has_ca r)))"
proof -
  have h: "extract_chain_info demo_is_aa demo_three_to_one demo_structure ''A''
             = Inr (''AG'', [(0, 0, 0), (1, 0, 0)])"
    by (simp add: extract_chain_info_def demo_structure_def demo_is_aa_def
          demo_three_to_one_def)
  show ?thesis using h extract_chain_info_entries [OF h] by blast
qed

text \<open>
  Claim C1, as it is stated, fails: an alanine without alpha-carbon gives a sequence of
  one letter and no coordinate.
\<close>

theorem extract_chain_info_counterexample:
  "extract_chain_info demo_is_aa demo_three_to_one no_ca_structure ''A'' = Inr (''A'', [])"
  by (simp add: extract_chain_info_def no_ca_structure_def demo_is_aa_def
        demo_three_to_one_def)

text \<open>
  Claim C8. Extraction fails, and then with the chain-not-found error, exactly when the
  chain id is absent from the first model of the structure; when the chain is present
  extraction returns a result.
\<close>

theorem extract_chain_not_found_iff:
  "(extract_chain_info is_aa t1 s chain_id = Inl ChainNotFoundError) = (\<not> has_chain s chain_id) \<and>
   (\<exists>e. extract_chain_info is_aa t1 s chain_id = Inl e) = (\<not> has_chain s chain_id) \<and>
   (\<exists>r. extract_chain_info is_aa t1 s chain_id = Inr r) = has_chain s chain_id"
  by (auto simp: extract_chain_info_def has_chain_def split: list.splits option.splits)

theorem extract_chain_not_found_iff_witness:
  "\<not> has_chain demo_structure ''C'' \<and> has_chain demo_structure ''B'' \<and>
   extract_chain_info demo_is_aa demo_three_to_one demo_structure ''C'' = Inl ChainNotFoundError \<and>
   (\<exists>r. extract_chain_info demo_is_aa demo_three_to_one demo_structure ''B'' = Inr r)"
proof -
  have a: "\<not> has_chain demo_structure ''C''" and b: "has_chain demo_structure ''B''"
    by (simp_all add: has_chain_def demo_structure_def)
  show ?thesis
    using a b
      extract_chain_not_found_iff [of demo_is_aa demo_three_to_one demo_structure "''C''"]
      extract_chain_not_found_iff [of demo_is_aa demo_three_to_one demo_structure "''B''"]
    by blast
qed

text \<open>
  Claim C9. The complex coordinates of the \<open>ComplexInfo\<close> that \<open>parse_complex\<close> builds are
  the target coordinates followed by the binder coordinates.
\<close>

theorem parse_complex_concat:
  assumes "parse_complex is_aa t1 s path tc bc = Inr ci"
  shows "complex_coords ci = target_coords ci @ binder_coords ci"
  using assms
  by (auto simp: parse_complex_def get_complex_coords_def np_concatenate_def
        split: sum.splits prod.splits if_splits)

theorem parse_complex_concat_witness:
  "\<exists>ci. parse_complex demo_is_aa demo_three_to_one demo_structure ''ref.pdb'' ''A'' ''B'' = Inr ci \<and>
        target_coords ci = [(0, 0, 0), (1, 0, 0)] \<and> binder_coords ci = [(0, 1, 0)] \<and>
        complex_coords ci = target_coords ci @ binder_coords ci"
proof -
  have "\<exists>ci. parse_complex demo_is_aa demo_three_to_one demo_structure ''ref.pdb'' ''A'' ''B'' = Inr ci \<and>
        target_coords ci = [(0, 0, 0), (1, 0, 0)] \<and> binder_coords ci = [(0, 1, 0)]"
    by (simp add: parse_complex_def get_complex_coords_def np_concatenate_def
          extract_chain_info_def demo_structure_def demo_is_aa_def demo_three_to_one_def)
  then show ?thesis using parse_complex_concat by blast
qed

section \<open>The primitives\<close>

lemma sqdist_nonneg: "0 \<le> sqdist p q"
  by (cases p; cases q) (simp add: sqdist_def)

lemma mean_nonneg: "(\<And>x. x \<in> set xs \<Longrightarrow> 0 \<le> x) \<Longrightarrow> 0 \<le> mean xs"
  by (simp add: mean_def sum_list_nonneg)

lemma rms_nonneg: "0 \<le> rms a b"
  unfolding rms_def by (rule real_sqrt_ge_zero, rule mean_nonneg) (auto simp: sqdist_nonneg)

lemma calculate_rmsd_ok:
  "length a = length b \<Longrightarrow> a \<noteq> [] \<Longrightarrow> calculate_rmsd a b = Inr (rms a b)"
  by (simp add: calculate_rmsd_def)

lemma kabsch_align_ok:
  "length a = length b \<Longrightarrow> a \<noteq> [] \<Longrightarrow> \<exists>al. kabsch_align svd a b = Inr (al, rms al b)"
  by (simp add: kabsch_align_def Let_def)

lemma scope_rmsd_ok:
  "length a = length b \<Longrightarrow> a \<noteq> [] \<Longrightarrow>
     \<exists>al. kabsch_align svd a b = Inr (al, rms al b) \<and>
          calculate_rmsd a b = Inr (rms a b) \<and>
          scope_rmsd svd a b = Inr (rms a b, rms al b)"
  by (simp add: scope_rmsd_def kabsch_align_def calculate_rmsd_def Let_def)

lemma scope_rmsd_nonneg:
  "scope_rmsd svd a b = Inr (u, v) \<Longrightarrow> 0 \<le> u \<and> 0 \<le> v"
  by (auto simp: scope_rmsd_def kabsch_align_def calculate_rmsd_def Let_def rms_nonneg
        split: if_splits)

text \<open>
  Claim C7. \<open>calculate_rmsd\<close> and \<open>kabsch_align\<close> fail with the length-mismatch error
  exactly when the two arrays differ in length.
\<close>

theorem rmsd_length_mismatch_iff:
  "(calculate_rmsd a b = Inl LengthMismatchError) = (length a \<noteq> length b) \<and>
   (kabsch_align svd a b = Inl LengthMismatchError) = (length a \<noteq> length b)"
  by (auto simp: calculate_rmsd_def kabsch_align_def Let_def)

theorem rmsd_length_mismatch_iff_witness:
  "calculate_rmsd axes6 (take 4 axes6) = Inl LengthMismatchError \<and>
   kabsch_align diag_svd axes6 (take 4 axes6) = Inl LengthMismatchError \<and>
   calculate_rmsd axes6 axes6_mirror \<noteq> Inl LengthMismatchError \<and>
   kabsch_align diag_svd axes6 axes6_mirror \<noteq> Inl LengthMismatchError"
proof -
  have a: "length axes6 \<noteq> length (take 4 axes6)"
    and b: "\<not> length axes6 \<noteq> length axes6_mirror"
    by (simp_all add: axes6_def axes6_mirror_def)
  show ?thesis
    using a b rmsd_length_mismatch_iff [of axes6 "take 4 axes6" diag_svd]
      rmsd_length_mismatch_iff [of axes6 axes6_mirror diag_svd]
    by blast
qed

section \<open>The rotation is proper\<close>

lemma mat3_cases [case_names Mat]:
  obtains a b c d e f g h i :: real where "A = ((a, b, c), (d, e, f), (g, h, i))"
  by (metis prod_cases3)

lemma det3_mmul: "det3 (mmul A B) = det3 A * det3 B"
  by (cases A rule: mat3_cases; cases B rule: mat3_cases) (simp add: algebra_simps)

lemma det3_mT: "det3 (mT A) = det3 A"
  by (cases A rule: mat3_cases) (simp add: algebra_simps)

lemma det3_neg_last_row: "det3 (neg_last_row A) = - det3 A"
  by (cases A rule: mat3_cases) (simp add: algebra_simps)

lemma det3_mid: "det3 mid = 1"
  by (simp add: mid_def)

lemma mT_mT: "mT (mT A) = A"
  by (cases A rule: mat3_cases) simp

lemma mT_mmul: "mT (mmul A B) = mmul (mT B) (mT A)"
  by (cases A rule: mat3_cases; cases B rule: mat3_cases) (simp add: algebra_simps)

lemma mmul_assoc: "mmul (mmul A B) C = mmul A (mmul B C)"
  by (cases A rule: mat3_cases; cases B rule: mat3_cases; cases C rule: mat3_cases)
     (simp add: algebra_simps)

lemma mmul_mid_left: "mmul mid A = A"
  by (cases A rule: mat3_cases) (simp add: mid_def)

lemma mmul_mid_right: "mmul A mid = A"
  by (cases A rule: mat3_cases) (simp add: mid_def)

lemma orthogonal_det: "orthogonal Q \<Longrightarrow> det3 Q = 1 \<or> det3 Q = - 1"
proof -
  assume "orthogonal Q"
  then have "det3 (mmul (mT Q) Q) = 1" by (simp add: orthogonal_def det3_mid)
  then have "det3 Q * det3 Q = 1" by (simp add: det3_mmul det3_mT)
  then show ?thesis by (metis square_eq_1_iff)
qed

lemma orthogonal_mT: "orthogonal Q \<Longrightarrow> orthogonal (mT Q)"
  by (simp add: orthogonal_def mT_mT)

lemma orthogonal_mmul:
  assumes "orthogonal A" "orthogonal B"
  shows "orthogonal (mmul A B)"
proof -
  have "mmul (mT (mmul A B)) (mmul A B) = mmul (mT B) (mmul (mmul (mT A) A) B)"
    by (simp add: mT_mmul mmul_assoc)
  moreover have "mmul (mmul A B) (mT (mmul A B)) = mmul A (mmul (mmul B (mT B)) (mT A))"
    by (simp add: mT_mmul mmul_assoc)
  ultimately show ?thesis using assms by (simp add: orthogonal_def mmul_mid_left)
qed

lemma orthogonal_neg_last_row: "orthogonal Q \<Longrightarrow> orthogonal (neg_last_row Q)"
  by (cases Q rule: mat3_cases) (simp add: orthogonal_def mid_def)

lemma orthogonal_mid: "orthogonal mid"
  by (simp add: orthogonal_def mid_def)

lemma kabsch_rotation_cases:
  assumes "svd (cross_cov (centered a) (centered b)) = (U, S, Vt)"
  shows "kabsch_rotation svd a b =
           (if det3 (mmul (mT Vt) (mT U)) < 0 then mmul (mT (neg_last_row Vt)) (mT U)
            else mmul (mT Vt) (mT U))"
  using assms by (simp add: kabsch_rotation_def Let_def)

lemma kabsch_rotation_orthogonal:
  assumes "svd (cross_cov (centered a) (centered b)) = (U, S, Vt)"
    and "orthogonal U" and "orthogonal Vt"
  shows "det3 (kabsch_rotation svd a b) = 1" and "orthogonal (kabsch_rotation svd a b)"
proof -
  let ?R0 = "mmul (mT Vt) (mT U)" and ?R1 = "mmul (mT (neg_last_row Vt)) (mT U)"
  have o0: "orthogonal ?R0" using assms by (simp add: orthogonal_mmul orthogonal_mT)
  have o1: "orthogonal ?R1"
    using assms by (simp add: orthogonal_mmul orthogonal_mT orthogonal_neg_last_row)
  have d1: "det3 ?R1 = - det3 ?R0" by (simp add: det3_mmul det3_mT det3_neg_last_row)
  note rc = kabsch_rotation_cases [of svd a b U S Vt, OF assms(1)]
  show "det3 (kabsch_rotation svd a b) = 1"
    using orthogonal_det [OF o0] d1 by (auto simp: rc)
  show "orthogonal (kabsch_rotation svd a b)"
    using o0 o1 by (simp add: rc)
qed




section \<open>The scoring policy\<close>

lemma score_complex_mismatch_cases:
  assumes "length pred \<noteq> length (target_coords ref) + length (binder_coords ref)"
    and "m = min (length pred) (length (complex_coords ref))"
  shows "if m < 3 then score_complex svd pred ref = Inr sentinel_metrics
         else \<exists>al r_al r_un.
                kabsch_align svd (take m pred) (take m (complex_coords ref)) = Inr (al, r_al) \<and>
                calculate_rmsd (take m pred) (take m (complex_coords ref)) = Inr r_un \<and>
                score_complex svd pred ref =
                  Inr \<lparr> complex_rmsd = r_un, complex_rmsd_aligned = r_al,
                        target_rmsd = - 1, target_rmsd_aligned = - 1,
                        binder_rmsd = - 1, binder_rmsd_aligned = - 1 \<rparr>"
proof (cases "m < 3")
  case True
  then show ?thesis using assms by (simp add: score_complex_def Let_def sentinel_metrics_def)
next
  case False
  let ?a = "take m pred" and ?b = "take m (complex_coords ref)"
  have len: "length ?a = length ?b" using assms(2) by simp
  have ne: "?a \<noteq> []" using False assms(2) by auto
  from scope_rmsd_ok [OF len ne, of svd] obtain al where
    "kabsch_align svd ?a ?b = Inr (al, rms al ?b)"
    "calculate_rmsd ?a ?b = Inr (rms ?a ?b)"
    "scope_rmsd svd ?a ?b = Inr (rms ?a ?b, rms al ?b)" by blast
  then show ?thesis using False assms by (simp add: score_complex_def Let_def)
qed

text \<open>
  Claim C4. When the predicted array does not have \<open>n_target + n_binder\<close> points, let \<open>m\<close>
  be the smaller of its length and the length of the reference complex array. If
  \<open>m < 3\<close> all six metrics are \<open>-1\<close>. Otherwise the two complex metrics are the results
  of \<open>calculate_rmsd\<close> and \<open>kabsch_align\<close> on the first \<open>m\<close> points of both arrays, and
  the four target and binder metrics are \<open>-1\<close>.
\<close>

theorem score_complex_mismatch:
  assumes "length pred \<noteq> length (target_coords ref) + length (binder_coords ref)"
    and "m = min (length pred) (length (complex_coords ref))"
  shows "if m < 3 then score_complex svd pred ref = Inr sentinel_metrics
         else \<exists>al r_al r_un.
                kabsch_align svd (take m pred) (take m (complex_coords ref)) = Inr (al, r_al) \<and>
                calculate_rmsd (take m pred) (take m (complex_coords ref)) = Inr r_un \<and>
                score_complex svd pred ref =
                  Inr \<lparr> complex_rmsd = r_un, complex_rmsd_aligned = r_al,
                        target_rmsd = - 1, target_rmsd_aligned = - 1,
                        binder_rmsd = - 1, binder_rmsd_aligned = - 1 \<rparr>"
  using assms by (rule score_complex_mismatch_cases)

theorem score_complex_mismatch_witness:
  "length axes6 \<noteq> length (target_coords small_complex) + length (binder_coords small_complex) \<and>
   (4 :: nat) = min (length axes6) (length (complex_coords small_complex)) \<and>
   (\<exists>al r_al r_un.
      kabsch_align diag_svd (take 4 axes6) (take 4 (complex_coords small_complex)) = Inr (al, r_al) \<and>
      calculate_rmsd (take 4 axes6) (take 4 (complex_coords small_complex)) = Inr r_un \<and>
      score_complex diag_svd axes6 small_complex =
        Inr \<lparr> complex_rmsd = r_un, complex_rmsd_aligned = r_al,
              target_rmsd = - 1, target_rmsd_aligned = - 1,
              binder_rmsd = - 1, binder_rmsd_aligned = - 1 \<rparr>)"
proof -
  have a: "length axes6 \<noteq> length (target_coords small_complex) + length (binder_coords small_complex)"
    and b: "(4 :: nat) = min (length axes6) (length (complex_coords small_complex))"
    by (simp_all add: axes6_def small_complex_def)
  show ?thesis using a b score_complex_mismatch [OF a b, of diag_svd] by simp
qed

lemma score_complex_returns:
  assumes wf: "complex_coords ref = target_coords ref @ binder_coords ref"
    and nd: "length pred \<noteq> length (target_coords ref) + length (binder_coords ref) \<or> pred \<noteq> []"
  shows "\<exists>m. score_complex svd pred ref = Inr m"
proof (cases "length pred = length (target_coords ref) + length (binder_coords ref)")
  case False
  from score_complex_mismatch_cases [OF False refl, of svd] show ?thesis
    by (auto split: if_splits)
next
  case True
  note ex = True
  let ?nt = "length (target_coords ref)"
  have ne: "pred \<noteq> []" using nd True by auto
  have l0: "length pred = length (complex_coords ref)" using True wf by simp
  from scope_rmsd_ok [OF l0 ne, of svd] obtain u v where
    c: "scope_rmsd svd pred (complex_coords ref) = Inr (u, v)" by blast
  have "\<exists>u v. (if length (take ?nt pred) \<ge> 3
          then scope_rmsd svd (take ?nt pred) (target_coords ref) else Inr (- 1, - 1)) = Inr (u, v)"
  proof (cases "length (take ?nt pred) \<ge> 3")
    case True
    have "length (take ?nt pred) = length (target_coords ref)" using ex by simp
    moreover have "take ?nt pred \<noteq> []" using True by auto
    ultimately show ?thesis using scope_rmsd_ok [of "take ?nt pred" "target_coords ref" svd] True
      by auto
  qed auto
  then obtain tu tv where t: "(if length (take ?nt pred) \<ge> 3
          then scope_rmsd svd (take ?nt pred) (target_coords ref) else Inr (- 1, - 1)) = Inr (tu, tv)"
    by blast
  have "\<exists>u v. (if length (drop ?nt pred) \<ge> 3
          then scope_rmsd svd (drop ?nt pred) (binder_coords ref) else Inr (- 1, - 1)) = Inr (u, v)"
  proof (cases "length (drop ?nt pred) \<ge> 3")
    case True
    have "length (drop ?nt pred) = length (binder_coords ref)" using ex by simp
    moreover have "drop ?nt pred \<noteq> []" using True by auto
    ultimately show ?thesis using scope_rmsd_ok [of "drop ?nt pred" "binder_coords ref" svd] True
      by auto
  qed auto
  then obtain bu bv where b: "(if length (drop ?nt pred) \<ge> 3
          then scope_rmsd svd (drop ?nt pred) (binder_coords ref) else Inr (- 1, - 1)) = Inr (bu, bv)"
    by blast
  show ?thesis using ex c t b by (simp add: score_complex_def Let_def)
qed

lemma score_complex_empty_exact:
  assumes "complex_coords ref = target_coords ref @ binder_coords ref"
    and "length (target_coords ref) + length (binder_coords ref) = 0"
  shows "score_complex svd [] ref = Inl LinAlgError"
  using assms by (simp add: score_complex_def scope_rmsd_def kabsch_align_def)

text \<open>
  On a reference complex whose complex array is the target array followed by the binder
  array, the scoring never fails with the length-mismatch error, and it returns a record
  unless the predicted array and the reference complex are both empty.
\<close>

lemma score_complex_no_length_mismatch:
  assumes wf: "complex_coords ref = target_coords ref @ binder_coords ref"
  shows "score_complex svd pred ref \<noteq> Inl LengthMismatchError"
proof (cases "length pred \<noteq> length (target_coords ref) + length (binder_coords ref) \<or> pred \<noteq> []")
  case True
  from score_complex_returns [OF wf True, of svd] show ?thesis by auto
next
  case False
  then have "pred = []" "length (target_coords ref) + length (binder_coords ref) = 0" by auto
  then show ?thesis using score_complex_empty_exact [OF wf, of svd] by simp
qed

lemma score_complex_components:
  assumes "score_complex svd pred ref = Inr m"
  shows "(complex_rmsd m = - 1 \<or> 0 \<le> complex_rmsd m) \<and>
         (complex_rmsd_aligned m = - 1 \<or> 0 \<le> complex_rmsd_aligned m) \<and>
         (target_rmsd m = - 1 \<or> 0 \<le> target_rmsd m) \<and>
         (target_rmsd_aligned m = - 1 \<or> 0 \<le> target_rmsd_aligned m) \<and>
         (binder_rmsd m = - 1 \<or> 0 \<le> binder_rmsd m) \<and>
         (binder_rmsd_aligned m = - 1 \<or> 0 \<le> binder_rmsd_aligned m)"
  using assms
  by (auto simp: score_complex_def Let_def split: if_splits sum.splits prod.splits
        dest: scope_rmsd_nonneg)

text \<open>
  Claim C10, over the reals. On two non-empty arrays of equal length \<open>calculate_rmsd\<close>
  and \<open>kabsch_align\<close> return, and the values they return are not negative. Every
  component of a record that \<open>score_complex\<close> returns is \<open>-1\<close> or not negative.
\<close>

theorem rmsd_values_nonneg:
  "(length a = length b \<and> a \<noteq> [] \<longrightarrow>
      (\<exists>r. calculate_rmsd a b = Inr r \<and> 0 \<le> r) \<and>
      (\<exists>al r. kabsch_align svd a b = Inr (al, r) \<and> 0 \<le> r)) \<and>
   (score_complex svd pred ref = Inr m \<longrightarrow>
      (complex_rmsd m = - 1 \<or> 0 \<le> complex_rmsd m) \<and>
      (complex_rmsd_aligned m = - 1 \<or> 0 \<le> complex_rmsd_aligned m) \<and>
      (target_rmsd m = - 1 \<or> 0 \<le> target_rmsd m) \<and>
      (target_rmsd_aligned m = - 1 \<or> 0 \<le> target_rmsd_aligned m) \<and>
      (binder_rmsd m = - 1 \<or> 0 \<le> binder_rmsd m) \<and>
      (binder_rmsd_aligned m = - 1 \<or> 0 \<le> binder_rmsd_aligned m))"
proof -
  have "length a = length b \<and> a \<noteq> [] \<longrightarrow>
      (\<exists>r. calculate_rmsd a b = Inr r \<and> 0 \<le> r) \<and>
      (\<exists>al r. kabsch_align svd a b = Inr (al, r) \<and> 0 \<le> r)"
    using scope_rmsd_ok [of a b svd] rms_nonneg by fastforce
  then show ?thesis using score_complex_components [of svd pred ref m] by blast
qed

theorem rmsd_values_nonneg_witness:
  "length axes6 = length axes6_mirror \<and> axes6 \<noteq> [] \<and>
   (\<exists>r. calculate_rmsd axes6 axes6_mirror = Inr r \<and> 0 \<le> r) \<and>
   (\<exists>al r. kabsch_align diag_svd axes6 axes6_mirror = Inr (al, r) \<and> 0 \<le> r) \<and>
   score_complex diag_svd [(1, 0, 0), (- 1, 0, 0), (0, 0, 0), (0, 0, 0)] small_complex =
     Inr \<lparr> complex_rmsd = 0, complex_rmsd_aligned = 0,
           target_rmsd = 0, target_rmsd_aligned = 0,
           binder_rmsd = - 1, binder_rmsd_aligned = - 1 \<rparr>"
proof -
  have l: "length axes6 = length axes6_mirror \<and> axes6 \<noteq> []"
    by (simp add: axes6_def axes6_mirror_def)
  have e: "score_complex diag_svd [(1, 0, 0), (- 1, 0, 0), (0, 0, 0), (0, 0, 0)] small_complex =
     Inr \<lparr> complex_rmsd = 0, complex_rmsd_aligned = 0,
           target_rmsd = 0, target_rmsd_aligned = 0,
           binder_rmsd = - 1, binder_rmsd_aligned = - 1 \<rparr>"
    by (simp add: score_complex_def scope_rmsd_def kabsch_align_def calculate_rmsd_def
          kabsch_rotation_def cross_cov_def centered_def centroid_def mean_def rms_def
          sqdist_def diag_svd_def small_complex_def mzero_def mid_def Let_def)
  show ?thesis
    using l e
      rmsd_values_nonneg [of axes6 axes6_mirror diag_svd
        "[(1, 0, 0), (- 1, 0, 0), (0, 0, 0), (0, 0, 0)]" small_complex]
    by blast
qed

text \<open>
  Claim C2 fails where the reference complex has two points itself. A predicted array of
  two points then has exactly \<open>n_target + n_binder\<close> points, the branch for equal lengths
  is taken, and the two complex metrics are computed: here they are \<open>sqrt 2\<close> and \<open>1\<close>,
  not \<open>-1\<close>.
\<close>

theorem score_complex_two_points_exact:
  "score_complex diag_svd [(0, 0, 0), (3, 0, 0)] tiny_complex =
     Inr \<lparr> complex_rmsd = sqrt 2, complex_rmsd_aligned = 1,
           target_rmsd = - 1, target_rmsd_aligned = - 1,
           binder_rmsd = - 1, binder_rmsd_aligned = - 1 \<rparr>"
  by (simp add: score_complex_def scope_rmsd_def kabsch_align_def calculate_rmsd_def
        kabsch_rotation_def cross_cov_def centered_def centroid_def mean_def rms_def sqdist_def
        diag_svd_def tiny_complex_def mzero_def mid_def Let_def)

text \<open>
  Claim C3 fails where the predicted array and the reference complex are both empty: the
  lengths agree, the branch for equal lengths is taken without a test for fewer than
  three points, and \<open>kabsch_align\<close> raises inside \<open>np.linalg.svd\<close>. The reference
  complex is the one that \<open>parse_complex\<close> builds from two chains without alpha-carbon.
\<close>

theorem score_complex_empty_raises:
  "parse_complex demo_is_aa demo_three_to_one no_ca_structure ''ref.pdb'' ''A'' ''B''
     = Inr empty_complex \<and>
   extract_coords_from_cif no_ca_structure = [] \<and>
   calculate_complex_rmsd svd no_ca_structure empty_complex = Inl LinAlgError"
  by (simp add: parse_complex_def get_complex_coords_def np_concatenate_def
        extract_chain_info_def no_ca_structure_def demo_is_aa_def demo_three_to_one_def
        empty_complex_def extract_coords_from_cif_def calculate_complex_rmsd_def
        score_complex_def scope_rmsd_def kabsch_align_def)

section \<open>Alignment does not increase the RMSD\<close>

text \<open>
  The sum of squared distances after a rotation \<open>R\<close> of the centred points is a constant
  minus twice the trace of \<open>R H\<close>, so the rotation of \<open>kabsch_align\<close> has to make that
  trace at least the trace of \<open>H\<close>. With \<open>H = U diag(S) Vt\<close> the first is \<open>s1 + s2 + s3\<close>,
  or \<open>s1 + s2 - s3\<close> after the sign change, and the second is the sum of the \<open>s\<close> weighted
  by the diagonal of the orthogonal matrix \<open>Vt U\<close>. An orthogonal matrix of determinant
  \<open>-1\<close> has trace at most \<open>1\<close>.
\<close>

lemma cofactor_neg:
  fixes a b c d e f g h i :: real
  assumes c1: "a * a + d * d + g * g = 1"
    and c12: "a * b + d * e + g * h = 0"
    and c13: "a * c + d * f + g * i = 0"
    and det: "a * (e * i - f * h) - b * (d * i - f * g) + c * (d * h - e * g) = - 1"
  shows "e * i - f * h = - a"
proof -
  let ?C1 = "e * i - f * h" and ?C2 = "- (d * i - f * g)" and ?C3 = "d * h - e * g"
  have "?C1 = (a * a + d * d + g * g) * ?C1 + (a * b + d * e + g * h) * ?C2
                + (a * c + d * f + g * i) * ?C3"
    by (simp add: c1 c12 c13)
  also have "\<dots> = a * (a * (e * i - f * h) - b * (d * i - f * g) + c * (d * h - e * g))"
    by (simp add: algebra_simps)
  finally show ?thesis by (simp add: det)
qed

lemma unit_entry_bounds:
  fixes x y z :: real
  assumes "x * x + y * y + z * z = 1"
  shows "- 1 \<le> x" and "x \<le> 1"
proof -
  have "x * x \<le> 1"
    using assms zero_le_square [of y] zero_le_square [of z] by linarith
  then have "x\<^sup>2 \<le> 1" by (simp add: power2_eq_square)
  then have "\<bar>x\<bar> \<le> 1" by (simp add: abs_square_le_1)
  then show "- 1 \<le> x" and "x \<le> 1" by simp_all
qed

lemma orth_trace_le_1:
  fixes a b c d e f g h i :: real
  assumes c1: "a * a + d * d + g * g = 1"
    and c2: "b * b + e * e + h * h = 1"
    and c3: "c * c + f * f + i * i = 1"
    and c12: "a * b + d * e + g * h = 0"
    and c13: "a * c + d * f + g * i = 0"
    and c23: "b * c + e * f + h * i = 0"
    and det: "a * (e * i - f * h) - b * (d * i - f * g) + c * (d * h - e * g) = - 1"
  shows "a + e + i \<le> 1"
proof -
  have m1: "e * i - f * h = - a"
    using cofactor_neg [OF c1 c12 c13 det] .
  have m2: "a * i - c * g = - e"
  proof -
    have d': "e * (a * i - c * g) - d * (b * i - c * h) + f * (b * g - a * h) = - 1"
      using det by (simp add: algebra_simps)
    show ?thesis
      using cofactor_neg [of e b h d a g f c i] c2 c12 c23 d' by (simp add: algebra_simps)
  qed
  have m3: "a * e - b * d = - i"
  proof -
    have d': "i * (e * a - d * b) - h * (f * a - d * c) + g * (f * b - e * c) = - 1"
      using det by (simp add: algebra_simps)
    show ?thesis
      using cofactor_neg [of i c f g a d h b e] c3 c13 c23 d' by (simp add: algebra_simps)
  qed
  have sq: "a * a + b * b + c * c + d * d + e * e + f * f + g * g + h * h + i * i = 3"
    using c1 c2 c3 by simp
  have key: "(3 + (a + e + i)) * (1 - (a + e + i)) = (b - d)\<^sup>2 + (c - g)\<^sup>2 + (f - h)\<^sup>2"
  proof -
    have "(b - d)\<^sup>2 + (c - g)\<^sup>2 + (f - h)\<^sup>2
            = (b * b + c * c + d * d + f * f + g * g + h * h) - 2 * (b * d) - 2 * (c * g) - 2 * (f * h)"
      by (simp add: power2_eq_square algebra_simps)
    also have "b * b + c * c + d * d + f * f + g * g + h * h = 3 - a * a - e * e - i * i"
      using sq by simp
    also have "b * d = a * e + i" using m3 by simp
    also have "c * g = a * i + e" using m2 by simp
    also have "f * h = e * i + a" using m1 by simp
    finally show ?thesis by (simp add: algebra_simps)
  qed
  have ge: "0 \<le> (3 + (a + e + i)) * (1 - (a + e + i))"
    unfolding key by simp
  have lo: "0 \<le> 3 + (a + e + i)"
    using unit_entry_bounds(1) [OF c1] unit_entry_bounds(1) [of e b h] unit_entry_bounds(1) [of i c f]
      c2 c3 by (simp add: algebra_simps)
  show ?thesis
  proof (cases "3 + (a + e + i) = 0")
    case True
    then show ?thesis by simp
  next
    case False
    then have "0 < 3 + (a + e + i)" using lo by simp
    then have "0 \<le> 1 - (a + e + i)" using ge by (simp add: zero_le_mult_iff)
    then show ?thesis by simp
  qed
qed


lemma tr3_mmul_comm: "tr3 (mmul A B) = tr3 (mmul B A)"
  by (cases A rule: mat3_cases; cases B rule: mat3_cases) (simp add: algebra_simps)

lemma tr3_mid_mmul: "tr3 (mmul mid A) = tr3 A"
  by (simp add: mmul_mid_left)

lemma orthogonal_trace_le_1:
  assumes "orthogonal W" and "det3 W = - 1"
  shows "tr3 W \<le> 1"
proof (cases W rule: mat3_cases)
  case (Mat a b c d e f g h i)
  have cols: "mmul (mT W) W = mid" using assms(1) by (simp add: orthogonal_def)
  have "a * a + d * d + g * g = 1" "b * b + e * e + h * h = 1" "c * c + f * f + i * i = 1"
    "a * b + d * e + g * h = 0" "a * c + d * f + g * i = 0" "b * c + e * f + h * i = 0"
    using cols unfolding Mat by (simp_all add: mid_def)
  moreover have "a * (e * i - f * h) - b * (d * i - f * g) + c * (d * h - e * g) = - 1"
    using assms(2) unfolding Mat by simp
  ultimately have "a + e + i \<le> 1" by (rule orth_trace_le_1)
  then show ?thesis unfolding Mat by simp
qed

lemma weighted_trace_le:
  assumes "orthogonal W" and "descending S"
  shows "tr3 (mmul (diag S) W) \<le> tr3 (diag S)"
proof (cases W rule: mat3_cases)
  case (Mat a b c d e f g h i)
  obtain s1 s2 s3 where S: "S = (s1, s2, s3)" by (cases S) auto
  have s: "0 \<le> s1" "0 \<le> s2" "0 \<le> s3" using assms(2) unfolding S by simp_all
  have rows: "mmul W (mT W) = mid" using assms(1) by (simp add: orthogonal_def)
  have "a * a + b * b + c * c = 1" "e * e + d * d + f * f = 1" "i * i + g * g + h * h = 1"
    using rows unfolding Mat by (simp_all add: mid_def algebra_simps)
  then have "a \<le> 1" "e \<le> 1" "i \<le> 1"
    using unit_entry_bounds(2) by blast+
  then have "s1 * a \<le> s1" "s2 * e \<le> s2" "s3 * i \<le> s3"
    using s by (simp_all add: mult_left_le)
  then show ?thesis unfolding Mat S by simp
qed

lemma weighted_trace_le_reflect:
  assumes "orthogonal W" and "descending (s1, s2, s3)" and "det3 W = - 1"
  shows "tr3 (mmul (diag (s1, s2, s3)) W) \<le> s1 + s2 - s3"
proof (cases W rule: mat3_cases)
  case (Mat a b c d e f g h i)
  have s: "s3 \<le> s1" "s3 \<le> s2" "0 \<le> s3" using assms(2) by simp_all
  have rows: "mmul W (mT W) = mid" using assms(1) by (simp add: orthogonal_def)
  have "a * a + b * b + c * c = 1" "e * e + d * d + f * f = 1"
    using rows unfolding Mat by (simp_all add: mid_def algebra_simps)
  then have le: "0 \<le> 1 - a" "0 \<le> 1 - e"
    using unit_entry_bounds(2) by fastforce+
  have t: "0 \<le> 1 - (a + e + i)"
    using orthogonal_trace_le_1 [OF assms(1) assms(3)] unfolding Mat by simp
  have "s3 * (1 - a) \<le> s1 * (1 - a)" "s3 * (1 - e) \<le> s2 * (1 - e)"
    using s le by (simp_all add: mult_right_mono)
  moreover have "0 \<le> s3 * (1 - (a + e + i))" using s t by simp
  ultimately have "0 \<le> s1 * (1 - a) + s2 * (1 - e) - s3 * (1 + i)"
    by (simp add: algebra_simps)
  then show ?thesis unfolding Mat by (simp add: algebra_simps)
qed

lemma mmul_neg_last_row:
  assumes "orthogonal Q"
  shows "mmul Q (mT (neg_last_row Q)) = diag (1, 1, - 1)"
proof (cases Q rule: mat3_cases)
  case (Mat a b c d e f g h i)
  have rows: "mmul Q (mT Q) = mid" using assms by (simp add: orthogonal_def)
  show ?thesis using rows unfolding Mat by (simp add: mid_def)
qed

lemma trace_rotated:
  assumes U: "orthogonal U" and V: "orthogonal Vt"
    and H: "H = mmul U (mmul (diag S) Vt)"
  shows "tr3 (mmul (mmul (mT Vt') (mT U)) H) = tr3 (mmul (diag S) (mmul Vt (mT Vt')))"
proof -
  have "mmul (mmul (mT Vt') (mT U)) H
          = mmul (mT Vt') (mmul (mmul (mT U) U) (mmul (diag S) Vt))"
    unfolding H by (simp add: mmul_assoc)
  also have "\<dots> = mmul (mT Vt') (mmul (diag S) Vt)"
    using U by (simp add: orthogonal_def mmul_mid_left)
  finally have "tr3 (mmul (mmul (mT Vt') (mT U)) H) = tr3 (mmul (mT Vt') (mmul (diag S) Vt))"
    by simp
  also have "\<dots> = tr3 (mmul (mmul (diag S) Vt) (mT Vt'))" by (rule tr3_mmul_comm)
  finally show ?thesis by (simp add: mmul_assoc)
qed

lemma trace_unrotated:
  assumes H: "H = mmul U (mmul (diag S) Vt)"
  shows "tr3 H = tr3 (mmul (diag S) (mmul Vt U))"
proof -
  have "tr3 H = tr3 (mmul (mmul (diag S) Vt) U)" unfolding H by (rule tr3_mmul_comm)
  then show ?thesis by (simp add: mmul_assoc)
qed

lemma kabsch_trace_optimal:
  assumes sv: "svd (cross_cov (centered a) (centered b)) = (U, S, Vt)"
    and ok: "exact_svd svd (cross_cov (centered a) (centered b))"
  shows "tr3 (cross_cov (centered a) (centered b))
           \<le> tr3 (mmul (kabsch_rotation svd a b) (cross_cov (centered a) (centered b)))"
proof -
  let ?H = "cross_cov (centered a) (centered b)"
  obtain s1 s2 s3 where S: "S = (s1, s2, s3)" by (cases S) auto
  have U: "orthogonal U" and V: "orthogonal Vt" and D: "descending S"
    and H: "?H = mmul U (mmul (diag S) Vt)"
    using ok sv by (simp_all add: exact_svd_def)
  let ?W = "mmul Vt U"
  have W: "orthogonal ?W" by (rule orthogonal_mmul [OF V U])
  have tH: "tr3 ?H = tr3 (mmul (diag S) ?W)" using trace_unrotated [OF H] .
  note rc = kabsch_rotation_cases [of svd a b U S Vt, OF sv]
  have dW: "det3 (mmul (mT Vt) (mT U)) = det3 ?W" by (simp add: det3_mmul det3_mT)
  show ?thesis
  proof (cases "det3 (mmul (mT Vt) (mT U)) < 0")
    case False
    then have "kabsch_rotation svd a b = mmul (mT Vt) (mT U)" by (simp add: rc)
    then have "tr3 (mmul (kabsch_rotation svd a b) ?H) = tr3 (mmul (diag S) (mmul Vt (mT Vt)))"
      using trace_rotated [OF U V H, of Vt] by simp
    also have "\<dots> = tr3 (diag S)" using V by (simp add: orthogonal_def mmul_mid_right)
    finally show ?thesis using weighted_trace_le [OF W D] tH by simp
  next
    case True
    then have "kabsch_rotation svd a b = mmul (mT (neg_last_row Vt)) (mT U)" by (simp add: rc)
    then have "tr3 (mmul (kabsch_rotation svd a b) ?H)
                 = tr3 (mmul (diag S) (mmul Vt (mT (neg_last_row Vt))))"
      using trace_rotated [OF U V H, of "neg_last_row Vt"] by simp
    also have "\<dots> = s1 + s2 - s3" unfolding mmul_neg_last_row [OF V] S by simp
    finally have r: "tr3 (mmul (kabsch_rotation svd a b) ?H) = s1 + s2 - s3" .
    have "det3 ?W = - 1" using True dW orthogonal_det [OF W] by auto
    then show ?thesis using weighted_trace_le_reflect [OF W D [unfolded S]] tH r S by simp
  qed
qed


lemma dot_mv_adjoint: "dot (mv A x) y = dot x (mv (mT A) y)"
  by (cases A rule: mat3_cases; cases x; cases y) (simp add: algebra_simps)

lemma mv_mmul: "mv (mmul A B) x = mv A (mv B x)"
  by (cases A rule: mat3_cases; cases B rule: mat3_cases; cases x) (simp add: algebra_simps)

lemma mv_mid: "mv mid x = x"
  by (cases x) (simp add: mid_def)

lemma orthogonal_norm: "orthogonal R \<Longrightarrow> dot (mv R x) (mv R x) = dot x x"
  by (simp add: dot_mv_adjoint mv_mmul [symmetric] orthogonal_def mv_mid)

lemma sqdist_expand: "sqdist u y = dot u u + dot y y - 2 * dot u y"
  by (cases u; cases y) (simp add: sqdist_def algebra_simps)

lemma sqdist_rotated:
  "orthogonal R \<Longrightarrow> sqdist (mv R x) y = dot x x + dot y y - 2 * dot (mv R x) y"
  by (simp add: sqdist_expand orthogonal_norm)

lemma sqdist_vadd_same: "sqdist (vadd u c) (vadd y c) = sqdist u y"
  by (cases u; cases y; cases c) (simp add: sqdist_def)

lemma sqdist_shift:
  "sqdist (vadd x c1) (vadd y c2)
     = sqdist x y + 2 * dot (vsub x y) (vsub c1 c2) + dot (vsub c1 c2) (vsub c1 c2)"
  by (cases x; cases y; cases c1; cases c2) (simp add: sqdist_def algebra_simps)

lemma vadd_vsub_cancel: "vadd (vsub p c) c = p"
  by (cases p; cases c) simp

lemma tr3_mmul_madd: "tr3 (mmul R (madd A B)) = tr3 (mmul R A) + tr3 (mmul R B)"
  by (cases R rule: mat3_cases; cases A rule: mat3_cases; cases B rule: mat3_cases)
     (simp add: algebra_simps)

lemma tr3_mmul_outer: "tr3 (mmul R (outer x y)) = dot (mv R x) y"
  by (cases R rule: mat3_cases; cases x; cases y) (simp add: algebra_simps)

lemma tr3_mmul_mzero: "tr3 (mmul R mzero) = 0"
  by (cases R rule: mat3_cases) (simp add: mzero_def)

lemma sum_dot_rotated:
  "sum_list (map (\<lambda>(x, y). dot (mv R x) y) ps)
     = tr3 (mmul R (foldr (\<lambda>(x, y) M. madd (outer x y) M) ps mzero))"
  by (induction ps)
     (simp_all add: tr3_mmul_mzero tr3_mmul_madd tr3_mmul_outer case_prod_unfold)

lemma sum_sqdist_rotated:
  assumes "orthogonal R"
  shows "sum_list (map (\<lambda>(x, y). sqdist (mv R x) y) (zip X Y))
           = sum_list (map (\<lambda>(x, y). dot x x + dot y y) (zip X Y))
               - 2 * tr3 (mmul R (cross_cov X Y))"
proof -
  have "sum_list (map (\<lambda>(x, y). sqdist (mv R x) y) ps)
           = sum_list (map (\<lambda>(x, y). dot x x + dot y y) ps)
               - 2 * sum_list (map (\<lambda>(x, y). dot (mv R x) y) ps)" for ps
    by (induction ps) (simp_all add: sqdist_rotated [OF assms] case_prod_unfold algebra_simps)
  then show ?thesis by (simp add: sum_dot_rotated cross_cov_def)
qed

lemma vsum_Cons: "vsum (p # ps) = vadd p (vsum ps)"
  by (simp add: vsum_def)

lemma vsum_Nil: "vsum [] = (0, 0, 0)"
  by (simp add: vsum_def)

lemma vsum_components:
  "vsum a = (sum_list (map fst a), sum_list (map (\<lambda>p. fst (snd p)) a),
             sum_list (map (\<lambda>p. snd (snd p)) a))"
  by (induction a) (auto simp: vsum_Nil vsum_Cons)

lemma vsum_centered:
  assumes "a \<noteq> []"
  shows "vsum (centered a) = (0, 0, 0)"
proof -
  have n: "real (length a) \<noteq> 0" using assms by simp
  have sub: "vsum (map (\<lambda>p. vsub p c) a) = vsub (vsum a) (vscale (real (length a)) c)" for c
  proof (induction a)
    case Nil
    show ?case by (cases c) (simp add: vsum_Nil)
  next
    case (Cons p ps)
    then show ?case
      by (cases p; cases c; cases "vsum ps") (simp add: vsum_Cons algebra_simps)
  qed
  have "vscale (real (length a)) (centroid a) = vsum a"
    using n by (simp add: centroid_def mean_def vsum_components)
  then show ?thesis by (cases "vsum a") (simp add: centered_def sub)
qed

lemma sum_dot_vsub:
  "length X = length Y \<Longrightarrow>
     sum_list (map (\<lambda>(x, y). dot (vsub x y) c) (zip X Y)) = dot (vsub (vsum X) (vsum Y)) c"
proof (induction X Y rule: list_induct2)
  case Nil
  then show ?case by (cases c) (simp add: vsum_Nil)
next
  case (Cons x xs y ys)
  then show ?case
    by (cases x; cases y; cases c; cases "vsum xs"; cases "vsum ys")
       (simp add: vsum_Cons algebra_simps)
qed

lemma sum_sqdist_shifted:
  assumes "length X = length Y"
  shows "sum_list (map (\<lambda>(x, y). sqdist (vadd x c1) (vadd y c2)) (zip X Y))
           = sum_list (map (\<lambda>(x, y). sqdist x y) (zip X Y))
               + 2 * dot (vsub (vsum X) (vsum Y)) (vsub c1 c2)
               + real (length X) * dot (vsub c1 c2) (vsub c1 c2)"
proof -
  have "sum_list (map (\<lambda>(x, y). sqdist (vadd x c1) (vadd y c2)) ps)
           = sum_list (map (\<lambda>(x, y). sqdist x y) ps)
               + 2 * sum_list (map (\<lambda>(x, y). dot (vsub x y) (vsub c1 c2)) ps)
               + real (length ps) * dot (vsub c1 c2) (vsub c1 c2)" for ps
    by (induction ps) (simp_all add: sqdist_shift case_prod_unfold algebra_simps)
  from this [of "zip X Y"] show ?thesis using assms by (simp add: sum_dot_vsub)
qed

lemma dot_zero_left: "dot (0, 0, 0) v = 0"
  by (cases v) simp

lemma dot_self_nonneg: "0 \<le> dot c c"
  by (cases c) simp

lemma uncentered: "map (\<lambda>x. vadd x (centroid a)) (centered a) = a"
  by (simp add: centered_def vadd_vsub_cancel comp_def)

lemma kabsch_sum_sqdist_le:
  assumes len: "length a = length b" and ne: "a \<noteq> []"
    and ok: "exact_svd svd (cross_cov (centered a) (centered b))"
  shows "sum_sqdist (map (\<lambda>x. vadd (mv (kabsch_rotation svd a b) x) (centroid b)) (centered a)) b
           \<le> sum_sqdist a b"
proof -
  let ?X = "centered a" and ?Y = "centered b" and ?R = "kabsch_rotation svd a b"
  let ?P = "sum_list (map (\<lambda>(x, y). dot x x + dot y y) (zip ?X ?Y))"
  let ?c = "vsub (centroid a) (centroid b)"
  obtain U S Vt where sv: "svd (cross_cov ?X ?Y) = (U, S, Vt)" by (cases "svd (cross_cov ?X ?Y)")
  have UV: "orthogonal U" "orthogonal Vt" using ok sv by (simp_all add: exact_svd_def)
  have R: "orthogonal ?R" using kabsch_rotation_orthogonal(2) [of svd a b U S Vt, OF sv UV] .
  have lXY: "length ?X = length ?Y" using len by (simp add: centered_def)
  have bne: "b \<noteq> []" using len ne by auto
  have "sum_sqdist (map (\<lambda>x. vadd (mv ?R x) (centroid b)) ?X) b
          = sum_sqdist (map (\<lambda>x. vadd (mv ?R x) (centroid b)) ?X)
              (map (\<lambda>y. vadd y (centroid b)) ?Y)"
    by (simp add: uncentered)
  also have "\<dots> = sum_list (map (\<lambda>(x, y). sqdist (mv ?R x) y) (zip ?X ?Y))"
    by (simp add: sum_sqdist_def zip_map_map comp_def case_prod_unfold sqdist_vadd_same)
  also have "\<dots> = ?P - 2 * tr3 (mmul ?R (cross_cov ?X ?Y))"
    by (rule sum_sqdist_rotated [OF R])
  finally have al: "sum_sqdist (map (\<lambda>x. vadd (mv ?R x) (centroid b)) ?X) b
                      = ?P - 2 * tr3 (mmul ?R (cross_cov ?X ?Y))" .
  have "sum_sqdist a b
          = sum_sqdist (map (\<lambda>x. vadd x (centroid a)) ?X) (map (\<lambda>y. vadd y (centroid b)) ?Y)"
    by (simp add: uncentered)
  also have "\<dots> = sum_list (map (\<lambda>(x, y). sqdist (vadd x (centroid a)) (vadd y (centroid b)))
                       (zip ?X ?Y))"
    by (simp add: sum_sqdist_def zip_map_map comp_def case_prod_unfold)
  also have "\<dots> = sum_list (map (\<lambda>(x, y). sqdist x y) (zip ?X ?Y))
                     + real (length ?X) * dot ?c ?c"
    using sum_sqdist_shifted [OF lXY, of "centroid a" "centroid b"]
    by (simp add: vsum_centered [OF ne] vsum_centered [OF bne] dot_zero_left)
  also have "sum_list (map (\<lambda>(x, y). sqdist x y) (zip ?X ?Y))
               = ?P - 2 * tr3 (cross_cov ?X ?Y)"
    using sum_sqdist_rotated [OF orthogonal_mid, of ?X ?Y] by (simp add: mv_mid mmul_mid_left)
  finally have un: "sum_sqdist a b
                      = ?P - 2 * tr3 (cross_cov ?X ?Y) + real (length ?X) * dot ?c ?c" .
  have "0 \<le> real (length ?X) * dot ?c ?c" by (simp add: dot_self_nonneg)
  then show ?thesis
    using kabsch_trace_optimal [OF sv ok] unfolding al un by simp
qed

lemma rms_sum_sqdist: "rms a b = sqrt (sum_sqdist a b / real (length (zip a b)))"
  by (simp add: rms_def mean_def sum_sqdist_def)

lemma kabsch_rms_le:
  assumes len: "length a = length b" and ne: "a \<noteq> []"
    and ok: "exact_svd svd (cross_cov (centered a) (centered b))"
  shows "rms (map (\<lambda>x. vadd (mv (kabsch_rotation svd a b) x) (centroid b)) (centered a)) b
           \<le> rms a b"
  using kabsch_sum_sqdist_le [OF assms] len
  by (simp add: rms_sum_sqdist centered_def divide_right_mono)

lemma cross_cov_axes6_lifted:
  "cross_cov (centered axes6_lifted) (centered axes6) = ((8, 0, 0), (0, 2, 0), (0, 0, 2))"
  by (simp add: cross_cov_def centered_def centroid_def mean_def axes6_def axes6_lifted_def
        mzero_def)

lemma cross_cov_triangle:
  "cross_cov (centered triangle) (centered triangle)
     = ((2 / 3, - 1 / 3, 0), (- 1 / 3, 2 / 3, 0), (0, 0, 0))"
  by (simp add: cross_cov_def centered_def centroid_def mean_def triangle_def mzero_def)

lemma kabsch_rotation_rounded:
  "kabsch_rotation rounded_svd triangle triangle
     = ((2 * c32 * c32, 0, 0), (0, 2 * c32 * c32, 0), (0, 0, 1))"
  by (simp add: kabsch_rotation_def rounded_svd_def Let_def) (simp add: c32_def)

lemma rms_rounded:
  "rms (map (\<lambda>x. vadd (mv (kabsch_rotation rounded_svd triangle triangle) x)
                (centroid triangle)) (centered triangle)) triangle
     = 4817239 / 211106232532992"
proof -
  have "mean (map (\<lambda>(p, q). sqdist p q)
          (zip (map (\<lambda>x. vadd (mv ((2 * c32 * c32, 0, 0), (0, 2 * c32 * c32, 0), (0, 0, 1)) x)
                (centroid triangle)) (centered triangle)) triangle))
        = (4817239 / 211106232532992)\<^sup>2"
    by (simp add: centered_def centroid_def mean_def triangle_def sqdist_def c32_def
          power2_eq_square)
  then show ?thesis unfolding kabsch_rotation_rounded by (simp add: rms_def)
qed

text \<open>
  The factors of \<open>rounded_svd\<close> are orthogonal up to a rounding error and not exactly.
\<close>

lemma rounded_svd_nearly:
  "mmul (mT ((c32, c32, 0), (- c32, c32, 0), (0, 0, 1))) ((c32, c32, 0), (- c32, c32, 0), (0, 0, 1))
     = ((2 * c32 * c32, 0, 0), (0, 2 * c32 * c32, 0), (0, 0, 1)) \<and>
   \<bar>2 * c32 * c32 - 1\<bar> < 1 / 10 ^ 7 \<and> 2 * c32 * c32 \<noteq> 1"
  by (simp add: c32_def)

text \<open>
  Claim C5, as the code has it in exact arithmetic. Let the triple that the singular
  value decomposition returns for the covariance matrix of the centred arrays be an
  exact one. Then for two arrays of equal length that are not empty both primitives
  return, and the RMSD that \<open>kabsch_align\<close> returns is at most the one that
  \<open>calculate_rmsd\<close> returns.
\<close>

theorem kabsch_align_rmsd_le_exact:
  assumes "length a = length b" and "a \<noteq> []"
    and "exact_svd svd (cross_cov (centered a) (centered b))"
  shows "\<exists>al r u. kabsch_align svd a b = Inr (al, r) \<and> calculate_rmsd a b = Inr u \<and> r \<le> u"
proof -
  have "kabsch_align svd a b =
          Inr (map (\<lambda>x. vadd (mv (kabsch_rotation svd a b) x) (centroid b)) (centered a),
               rms (map (\<lambda>x. vadd (mv (kabsch_rotation svd a b) x) (centroid b)) (centered a)) b)"
    using assms(1,2) by (simp add: kabsch_align_def Let_def)
  moreover have "calculate_rmsd a b = Inr (rms a b)"
    using assms(1,2) by (rule calculate_rmsd_ok)
  ultimately show ?thesis using kabsch_rms_le [OF assms] by blast
qed

text \<open>
  The witness is a translation: the unaligned RMSD is \<open>1\<close> and the aligned one is \<open>0\<close>.
\<close>

theorem kabsch_align_rmsd_le_exact_witness:
  "length axes6_lifted = length axes6 \<and>
   axes6_lifted \<noteq> [] \<and>
   exact_svd diag_svd (cross_cov (centered axes6_lifted) (centered axes6)) \<and>
   kabsch_align diag_svd axes6_lifted axes6 = Inr (axes6, 0) \<and>
   calculate_rmsd axes6_lifted axes6 = Inr 1 \<and>
   (\<exists>al r u. kabsch_align diag_svd axes6_lifted axes6 = Inr (al, r) \<and>
      calculate_rmsd axes6_lifted axes6 = Inr u \<and> r \<le> u)"
proof -
  have l: "length axes6_lifted = length axes6"
    by (simp add: axes6_def axes6_lifted_def)
  have ne: "axes6_lifted \<noteq> []" by (simp add: axes6_lifted_def)
  have ok: "exact_svd diag_svd (cross_cov (centered axes6_lifted) (centered axes6))"
    by (simp add: cross_cov_axes6_lifted exact_svd_def diag_svd_def orthogonal_def mid_def)
  have k: "kabsch_align diag_svd axes6_lifted axes6 = Inr (axes6, 0)"
    by (simp add: kabsch_align_def kabsch_rotation_def cross_cov_axes6_lifted diag_svd_def
          Let_def mid_def)
       (simp add: centered_def centroid_def mean_def rms_def sqdist_def axes6_def
          axes6_lifted_def)
  have c: "calculate_rmsd axes6_lifted axes6 = Inr 1"
    by (simp add: calculate_rmsd_def rms_def mean_def sqdist_def axes6_def axes6_lifted_def)
  show ?thesis using l ne ok k c kabsch_align_rmsd_le_exact [OF l ne ok] by blast
qed

text \<open>
  Claim C5, as it is stated, fails once the factors are rounded. On the triangle
  against itself \<open>calculate_rmsd\<close> returns \<open>0\<close>. With the factors of \<open>rounded_svd\<close> the
  rotation is the identity up to a rounding error, and \<open>kabsch_align\<close> returns an RMSD
  that is small and positive. Only the factors are rounded here, every other operation
  is exact, so the value is not the one of a floating-point run; its sign is.
\<close>

theorem kabsch_align_rounded_counterexample:
  "calculate_rmsd triangle triangle = Inr 0 \<and>
   \<not> isl (kabsch_align rounded_svd triangle triangle) \<and>
   snd (projr (kabsch_align rounded_svd triangle triangle)) = 4817239 / 211106232532992 \<and>
   \<not> snd (projr (kabsch_align rounded_svd triangle triangle))
       \<le> projr (calculate_rmsd triangle triangle)"
proof -
  have c: "calculate_rmsd triangle triangle = Inr 0"
    by (simp add: calculate_rmsd_def rms_def mean_def sqdist_def triangle_def)
  have "triangle \<noteq> []" by (simp add: triangle_def)
  then have k: "kabsch_align rounded_svd triangle triangle
             = Inr (map (\<lambda>x. vadd (mv (kabsch_rotation rounded_svd triangle triangle) x)
                      (centroid triangle)) (centered triangle), 4817239 / 211106232532992)"
    by (simp add: kabsch_align_def Let_def rms_rounded)
  show ?thesis by (simp add: c k)
qed

end
